theory Spec2Isabelle
  imports Complex_Main "HOL-Library.Multiset"
begin

section \<open>JavaScript strings\<close>

text \<open>
  A string is a list of code units. The model covers the code units below 256 (the
  ISO-8859-1 range), which is what \<^typ>\<open>char\<close> holds. \<open>String.prototype.toLowerCase\<close>
  maps \<open>A\<close>..\<open>Z\<close> and the upper-case letters \<open>0xC0\<close>..\<open>0xDE\<close> (without the
  multiplication sign \<open>0xD7\<close>) to the code unit 32 above and leaves every other code
  unit of that range alone.
\<close>

definition upperLowerPairs :: "(char \<times> char) list" where
  "upperLowerPairs =
     zip ''ABCDEFGHIJKLMNOPQRSTUVWXYZ'' ''abcdefghijklmnopqrstuvwxyz'' @
     zip [CHR 0xC0, CHR 0xC1, CHR 0xC2, CHR 0xC3, CHR 0xC4, CHR 0xC5, CHR 0xC6, CHR 0xC7,
          CHR 0xC8, CHR 0xC9, CHR 0xCA, CHR 0xCB, CHR 0xCC, CHR 0xCD, CHR 0xCE, CHR 0xCF,
          CHR 0xD0, CHR 0xD1, CHR 0xD2, CHR 0xD3, CHR 0xD4, CHR 0xD5, CHR 0xD6,
          CHR 0xD8, CHR 0xD9, CHR 0xDA, CHR 0xDB, CHR 0xDC, CHR 0xDD, CHR 0xDE]
         [CHR 0xE0, CHR 0xE1, CHR 0xE2, CHR 0xE3, CHR 0xE4, CHR 0xE5, CHR 0xE6, CHR 0xE7,
          CHR 0xE8, CHR 0xE9, CHR 0xEA, CHR 0xEB, CHR 0xEC, CHR 0xED, CHR 0xEE, CHR 0xEF,
          CHR 0xF0, CHR 0xF1, CHR 0xF2, CHR 0xF3, CHR 0xF4, CHR 0xF5, CHR 0xF6,
          CHR 0xF8, CHR 0xF9, CHR 0xFA, CHR 0xFB, CHR 0xFC, CHR 0xFD, CHR 0xFE]"

definition lowerChar :: "char \<Rightarrow> char" where
  "lowerChar c = (case map_of upperLowerPairs c of Some d \<Rightarrow> d | None \<Rightarrow> c)"

definition toLowerCase :: "string \<Rightarrow> string" where
  "toLowerCase s = map lowerChar s"

text \<open>
  \<open>String.prototype.trim\<close> strips WhiteSpace and LineTerminator code units from both
  ends: below 256 these are TAB, LF, VT, FF, CR, SPACE and NBSP.
\<close>

definition isWhiteSpace :: "char \<Rightarrow> bool" where
  "isWhiteSpace c \<longleftrightarrow>
     c \<in> set [CHR 0x09, CHR 0x0A, CHR 0x0B, CHR 0x0C, CHR 0x0D, CHR 0x20, CHR 0xA0]"

definition trim :: "string \<Rightarrow> string" where
  "trim s = rev (dropWhile isWhiteSpace (rev (dropWhile isWhiteSpace s)))"

definition startsWith :: "string \<Rightarrow> string \<Rightarrow> bool" where
  "startsWith s q \<longleftrightarrow> take (length q) s = q"

fun str_includes :: "string \<Rightarrow> string \<Rightarrow> bool" where
  "str_includes [] q = (q = [])"
| "str_includes (c # s) q = (startsWith (c # s) q \<or> str_includes s q)"

section \<open>Objects read by \<open>JSON.parse\<close>\<close>

text \<open>
  A parsed JSON object is the list of its own entries, in the order of \<open>Object.entries\<close>,
  with distinct keys. Reading \<open>obj[key]\<close> also sees what every object inherits from
  \<open>Object.prototype\<close>: a function (or, for \<open>__proto__\<close>, the prototype itself), which is
  truthy and has no \<open>map\<close> method.
\<close>

definition objectPrototypeKeys :: "string list" where
  "objectPrototypeKeys =
     [''constructor'', ''toString'', ''toLocaleString'', ''valueOf'', ''hasOwnProperty'',
      ''isPrototypeOf'', ''propertyIsEnumerable'', ''__proto__'', ''__defineGetter__'',
      ''__defineSetter__'', ''__lookupGetter__'', ''__lookupSetter__'']"

datatype 'a property = Own 'a | Inherited | Undefined

definition getProperty :: "(string \<times> 'a) list \<Rightarrow> string \<Rightarrow> 'a property" where
  "getProperty obj key =
     (case map_of obj key of
        Some v \<Rightarrow> Own v
      | None \<Rightarrow> if key \<in> set objectPrototypeKeys then Inherited else Undefined)"

text \<open>
  A model number is \<open>number | string\<close>. The numbers of the catalogue are integers (below
  \<open>10^21\<close> in magnitude, where \<open>Number.prototype.toString\<close> prints plain decimal digits).
\<close>

datatype lure_number = NumV int | StrV string

text \<open>The document \<open>data.json\<close>; a field that may be missing is an option.\<close>

record ColorEntry =
  col_id :: string
  col_name :: string
  col_yearIntroduced :: "int option"
  col_yearLastUsed :: "int option"
  col_companyId :: "string option"
  col_pre1925Id :: "string list option"

record LureEntry =
  lure_name :: string
  lure_number :: lure_number
  lure_yearIntroduced :: "int option"
  lure_yearLastMfg :: "int option"
  lure_colors :: "string list option"
  lure_rare_colors :: "string list option"
  lure_pre1925codes :: "(string \<times> int) list list option"
  lure_notes :: "string option"

record Manufacturer =
  m_id :: string
  m_name :: string
  m_colors :: "ColorEntry list option"
  m_lures :: "LureEntry list option"

record ByIdEntry =
  bi_manufacturerId :: string
  bi_colorName :: string
  bi_companyId :: "string option"

record Indexes =
  byId :: "(string \<times> ByIdEntry) list option"
  byCompanyId :: "(string \<times> string list) list option"

record Database =
  manufacturers :: "(string \<times> Manufacturer) list option"
  indexes :: "Indexes option"

text \<open>
  What \<open>fs.readFileSync\<close> followed by \<open>JSON.parse\<close> gives for the data path: either call
  throws, or the text parses, to \<open>null\<close> (\<open>None\<close>) or to a value whose properties are read
  as those of a \<open>Database\<close>.
\<close>

datatype file_content = ReadError | SyntaxError | Parsed "Database option"

datatype error = TypeError

section \<open>\<open>colorSearchProvider.ts\<close>\<close>

record ColorData =
  cd_id :: string
  cd_name :: string
  cd_yearIntroduced :: "int option"
  cd_yearLastUsed :: "int option"
  cd_companyId :: "string option"
  cd_pre1925Id :: "string list option"
  cd_manufacturerId :: string
  cd_manufacturerName :: string

record ColorSearchProvider =
  csp_database :: "Database option"
  colorCache :: "ColorData list"

definition colorData :: "string \<Rightarrow> Manufacturer \<Rightarrow> ColorEntry \<Rightarrow> ColorData" where
  "colorData manufacturerId manufacturer color =
     \<lparr>cd_id = col_id color, cd_name = col_name color,
      cd_yearIntroduced = col_yearIntroduced color, cd_yearLastUsed = col_yearLastUsed color,
      cd_companyId = col_companyId color, cd_pre1925Id = col_pre1925Id color,
      cd_manufacturerId = manufacturerId, cd_manufacturerName = m_name manufacturer\<rparr>"

definition buildColorCache :: "ColorSearchProvider \<Rightarrow> ColorSearchProvider" where
  "buildColorCache this =
     (case csp_database this of
        None \<Rightarrow> this
      | Some db \<Rightarrow>
          (case manufacturers db of
             None \<Rightarrow> this
           | Some ms \<Rightarrow>
               this\<lparr>colorCache :=
                 concat (map (\<lambda>(manufacturerId, manufacturer).
                           case m_colors manufacturer of
                             None \<Rightarrow> []
                           | Some colors \<Rightarrow> map (colorData manufacturerId manufacturer) colors)
                         ms)\<rparr>))"

definition ColorSearchProvider_loadDatabase ::
  "file_content \<Rightarrow> ColorSearchProvider \<Rightarrow> ColorSearchProvider" where
  "ColorSearchProvider_loadDatabase file this =
     (case file of
        Parsed db \<Rightarrow> buildColorCache (this\<lparr>csp_database := db\<rparr>)
      | _ \<Rightarrow> this\<lparr>csp_database := None, colorCache := []\<rparr>)"

definition new_ColorSearchProvider :: "file_content \<Rightarrow> ColorSearchProvider" where
  "new_ColorSearchProvider file =
     ColorSearchProvider_loadDatabase file \<lparr>csp_database = None, colorCache = []\<rparr>"

definition ColorSearchProvider_reload ::
  "file_content \<Rightarrow> ColorSearchProvider \<Rightarrow> ColorSearchProvider" where
  "ColorSearchProvider_reload file this = ColorSearchProvider_loadDatabase file this"

text \<open>
  \<open>Array.prototype.sort\<close> is stable; with a consistent comparator its result is the one
  stable arrangement, which insertion computes.
\<close>

fun insertBy :: "('a \<Rightarrow> 'a \<Rightarrow> int) \<Rightarrow> 'a \<Rightarrow> 'a list \<Rightarrow> 'a list" where
  "insertBy cmp x [] = [x]"
| "insertBy cmp x (y # ys) = (if cmp x y \<le> 0 then x # y # ys else y # insertBy cmp x ys)"

definition sortBy :: "('a \<Rightarrow> 'a \<Rightarrow> int) \<Rightarrow> 'a list \<Rightarrow> 'a list" where
  "sortBy cmp xs = foldr (insertBy cmp) xs []"

text \<open>
  The comparator both providers pass to \<open>sort\<close>, on the names of the two records.
  \<open>localeCompare\<close> is the host's collation and is a parameter.
\<close>

definition compareNames :: "(string \<Rightarrow> string \<Rightarrow> int) \<Rightarrow> string \<Rightarrow> string \<Rightarrow> string \<Rightarrow> int" where
  "compareNames localeCompare lowerQuery a b =
     (let aExactName = (toLowerCase a = lowerQuery);
          bExactName = (toLowerCase b = lowerQuery)
      in if aExactName \<and> \<not> bExactName then - 1
         else if \<not> aExactName \<and> bExactName then 1
         else
           let aStartsWith = startsWith (toLowerCase a) lowerQuery;
               bStartsWith = startsWith (toLowerCase b) lowerQuery
           in if aStartsWith \<and> \<not> bStartsWith then - 1
              else if \<not> aStartsWith \<and> bStartsWith then 1
              else localeCompare a b)"

definition byIdHit :: "ColorSearchProvider \<Rightarrow> string \<Rightarrow> bool" where
  "byIdHit this lowerQuery =
     (case csp_database this of
        None \<Rightarrow> False
      | Some db \<Rightarrow>
          (case indexes db of
             None \<Rightarrow> False
           | Some ix \<Rightarrow>
               (case byId ix of
                  None \<Rightarrow> False
                | Some m \<Rightarrow> getProperty m lowerQuery \<noteq> Undefined)))"

definition byCompanyIdEntry :: "ColorSearchProvider \<Rightarrow> string \<Rightarrow> string list property" where
  "byCompanyIdEntry this query =
     (case csp_database this of
        None \<Rightarrow> Undefined
      | Some db \<Rightarrow>
          (case indexes db of
             None \<Rightarrow> Undefined
           | Some ix \<Rightarrow>
               (case byCompanyId ix of
                  None \<Rightarrow> Undefined
                | Some m \<Rightarrow> getProperty m query)))"

definition colorMatches :: "string \<Rightarrow> ColorData \<Rightarrow> bool" where
  "colorMatches lowerQuery color \<longleftrightarrow>
     str_includes (toLowerCase (cd_id color)) lowerQuery
     \<or> str_includes (toLowerCase (cd_name color)) lowerQuery
     \<or> (case cd_companyId color of
           None \<Rightarrow> False
         | Some companyId \<Rightarrow> str_includes (toLowerCase companyId) lowerQuery)
     \<or> (case cd_pre1925Id color of
           None \<Rightarrow> False
         | Some ids \<Rightarrow> list_ex (\<lambda>i. str_includes (toLowerCase i) lowerQuery) ids)
     \<or> str_includes (toLowerCase (cd_manufacturerName color)) lowerQuery"

definition colorFuzzy ::
  "(string \<Rightarrow> string \<Rightarrow> int) \<Rightarrow> ColorSearchProvider \<Rightarrow> string \<Rightarrow> ColorData list" where
  "colorFuzzy localeCompare this lowerQuery =
     sortBy (\<lambda>a b. compareNames localeCompare lowerQuery (cd_name a) (cd_name b))
       (filter (colorMatches lowerQuery) (colorCache this))"

definition ColorSearchProvider_search ::
  "(string \<Rightarrow> string \<Rightarrow> int) \<Rightarrow> ColorSearchProvider \<Rightarrow> string \<Rightarrow> error + ColorData list" where
  "ColorSearchProvider_search localeCompare this query =
     (let lowerQuery = trim (toLowerCase query)
      in if lowerQuery = [] then Inr []
         else
           case (if byIdHit this lowerQuery
                 then find (\<lambda>c. toLowerCase (cd_id c) = lowerQuery) (colorCache this)
                 else None) of
             Some exactMatch \<Rightarrow> Inr [exactMatch]
           | None \<Rightarrow>
               (case byCompanyIdEntry this query of
                  Inherited \<Rightarrow> Inl TypeError
                | Own ids \<Rightarrow>
                    (let companyIdMatches =
                           List.map_filter (\<lambda>i. find (\<lambda>c. cd_id c = i) (colorCache this)) ids
                     in if companyIdMatches \<noteq> [] then Inr companyIdMatches
                        else Inr (colorFuzzy localeCompare this lowerQuery))
                | Undefined \<Rightarrow> Inr (colorFuzzy localeCompare this lowerQuery)))"

definition getById :: "ColorSearchProvider \<Rightarrow> string \<Rightarrow> ColorData option" where
  "getById this i = find (\<lambda>c. cd_id c = i) (colorCache this)"


section \<open>Numbers\<close>

text \<open>
  \<open>Number.prototype.toString\<close> on the integers of the catalogue, and \<open>toString\<close> on a
  model number (a string is its own string form).
\<close>

definition digitChar :: "nat \<Rightarrow> char" where
  "digitChar d = ''0123456789'' ! d"

fun natToString :: "nat \<Rightarrow> string" where
  "natToString n = (if n < 10 then [digitChar n] else natToString (n div 10) @ [digitChar (n mod 10)])"

definition intToString :: "int \<Rightarrow> string" where
  "intToString n = (if n < 0 then CHR ''-'' # natToString (nat (- n)) else natToString (nat n))"

fun toString :: "lure_number \<Rightarrow> string" where
  "toString (NumV n) = intToString n"
| "toString (StrV s) = s"

text \<open>
  A JavaScript number as far as the resolver can produce one: not-a-number, an infinity, or a
  finite value. Arithmetic on finite values is exact; binary64 agrees with it as long as the
  values are integers below \<open>2^53\<close> in magnitude. The sign of zero is not kept (it cannot be
  seen in the decimal rendering of a sum).
\<close>

datatype jsnum = NaN | Fin rat | PosInfinity | NegInfinity















fun add :: "jsnum \<Rightarrow> jsnum \<Rightarrow> jsnum" where
  "add (Fin x) (Fin y) = Fin (x + y)"
| "add NaN _ = NaN"
| "add _ NaN = NaN"
| "add PosInfinity NegInfinity = NaN"
| "add NegInfinity PosInfinity = NaN"
| "add PosInfinity _ = PosInfinity"
| "add NegInfinity _ = NegInfinity"
| "add _ PosInfinity = PosInfinity"
| "add _ NegInfinity = NegInfinity"

section \<open>\<open>lureSearchProvider.ts\<close>\<close>

record LureData =
  ld_name :: string
  ld_number :: lure_number
  ld_yearIntroduced :: "int option"
  ld_yearLastMfg :: "int option"
  ld_colors :: "string list option"
  ld_rare_colors :: "string list option"
  ld_pre1925codes :: "(string \<times> int) list list option"
  ld_notes :: "string option"
  ld_manufacturerId :: string
  ld_manufacturerName :: string

record LureSearchProvider =
  lsp_database :: "Database option"
  lureCache :: "LureData list"

definition lureData :: "string \<Rightarrow> Manufacturer \<Rightarrow> LureEntry \<Rightarrow> LureData" where
  "lureData manufacturerId manufacturer lure =
     \<lparr>ld_name = lure_name lure, ld_number = lure_number lure,
      ld_yearIntroduced = lure_yearIntroduced lure, ld_yearLastMfg = lure_yearLastMfg lure,
      ld_colors = lure_colors lure, ld_rare_colors = lure_rare_colors lure,
      ld_pre1925codes = lure_pre1925codes lure, ld_notes = lure_notes lure,
      ld_manufacturerId = manufacturerId, ld_manufacturerName = m_name manufacturer\<rparr>"

definition allLures :: "(string \<times> Manufacturer) list \<Rightarrow> LureData list" where
  "allLures ms =
     concat (map (\<lambda>(manufacturerId, manufacturer).
               case m_lures manufacturer of
                 None \<Rightarrow> []
               | Some lures \<Rightarrow>
                   if length lures = 0 then []
                   else map (lureData manufacturerId manufacturer) lures)
             ms)"

definition buildLureCache :: "LureSearchProvider \<Rightarrow> LureSearchProvider" where
  "buildLureCache this =
     (case lsp_database this of
        None \<Rightarrow> this
      | Some db \<Rightarrow>
          (case manufacturers db of
             None \<Rightarrow> this
           | Some ms \<Rightarrow> this\<lparr>lureCache := allLures ms\<rparr>))"

definition LureSearchProvider_loadDatabase ::
  "file_content \<Rightarrow> LureSearchProvider \<Rightarrow> LureSearchProvider" where
  "LureSearchProvider_loadDatabase file this =
     (case file of
        Parsed db \<Rightarrow> buildLureCache (this\<lparr>lsp_database := db\<rparr>)
      | _ \<Rightarrow> this\<lparr>lsp_database := None, lureCache := []\<rparr>)"

definition new_LureSearchProvider :: "file_content \<Rightarrow> LureSearchProvider" where
  "new_LureSearchProvider file =
     LureSearchProvider_loadDatabase file \<lparr>lsp_database = None, lureCache = []\<rparr>"

definition LureSearchProvider_reload ::
  "file_content \<Rightarrow> LureSearchProvider \<Rightarrow> LureSearchProvider" where
  "LureSearchProvider_reload file this = LureSearchProvider_loadDatabase file this"

definition lureMatches :: "string \<Rightarrow> string \<Rightarrow> LureData \<Rightarrow> bool" where
  "lureMatches query lowerQuery lure \<longleftrightarrow>
     str_includes (toLowerCase (ld_name lure)) lowerQuery
     \<or> str_includes (toString (ld_number lure)) query
     \<or> str_includes (toLowerCase (ld_manufacturerName lure)) lowerQuery"

definition lureFuzzy ::
  "(string \<Rightarrow> string \<Rightarrow> int) \<Rightarrow> LureSearchProvider \<Rightarrow> string \<Rightarrow> string \<Rightarrow> LureData list" where
  "lureFuzzy localeCompare this query lowerQuery =
     sortBy (\<lambda>a b. compareNames localeCompare lowerQuery (ld_name a) (ld_name b))
       (filter (lureMatches query lowerQuery) (lureCache this))"

definition LureSearchProvider_search ::
  "(string \<Rightarrow> string \<Rightarrow> int) \<Rightarrow> LureSearchProvider \<Rightarrow> string \<Rightarrow> LureData list" where
  "LureSearchProvider_search localeCompare this query =
     (let lowerQuery = trim (toLowerCase query)
      in if lowerQuery = [] then []
         else
           let numberMatch = filter (\<lambda>l. toString (ld_number l) = query) (lureCache this)
           in if numberMatch \<noteq> [] then numberMatch
              else lureFuzzy localeCompare this query lowerQuery)"


section \<open>\<open>extension.ts\<close>: the colour lookup of the lure details\<close>

record ColorInfo =
  ci_name :: string
  ci_pre1925Id :: "string list option"
  ci_companyId :: "string option"

type_synonym colorLookup = "string \<rightharpoonup> ColorInfo"

definition colorInfo :: "ColorEntry \<Rightarrow> ColorInfo" where
  "colorInfo color =
     \<lparr>ci_name = col_name color, ci_pre1925Id = col_pre1925Id color,
      ci_companyId = col_companyId color\<rparr>"

text \<open>
  \<open>buildColorLookup\<close> fills the map from the colours of the manufacturer \<open>creek-chub\<close>;
  reading a property of \<open>null\<close> throws, and the \<open>catch\<close> leaves the map as it was.
\<close>

definition buildColorLookup :: "file_content \<Rightarrow> colorLookup \<Rightarrow> colorLookup" where
  "buildColorLookup file lookup =
     (case file of
        Parsed (Some data) \<Rightarrow>
          (case manufacturers data of
             None \<Rightarrow> lookup
           | Some ms \<Rightarrow>
               (case map_of ms ''creek-chub'' of
                  None \<Rightarrow> lookup
                | Some manufacturer \<Rightarrow>
                    (case m_colors manufacturer of
                       None \<Rightarrow> lookup
                     | Some colors \<Rightarrow>
                         foldl (\<lambda>m color. m(col_id color \<mapsto> colorInfo color)) lookup colors)))
      | _ \<Rightarrow> lookup)"

definition getColorInfo :: "colorLookup \<Rightarrow> string \<Rightarrow> ColorInfo" where
  "getColorInfo lookup colorId =
     (case lookup colorId of
        Some info \<Rightarrow> info
      | None \<Rightarrow> \<lparr>ci_name = colorId, ci_pre1925Id = None, ci_companyId = None\<rparr>)"



section \<open>What the specification says, in its own words\<close>



text \<open>The colours of the manufacturer \<open>creek-chub\<close> in a document, if it has any.\<close>

definition creekChubColors :: "file_content \<Rightarrow> ColorEntry list" where
  "creekChubColors file =
     (case file of
        Parsed (Some data) \<Rightarrow>
          (case manufacturers data of
             None \<Rightarrow> []
           | Some ms \<Rightarrow>
               (case map_of ms ''creek-chub'' of
                  None \<Rightarrow> []
                | Some manufacturer \<Rightarrow>
                    (case m_colors manufacturer of None \<Rightarrow> [] | Some colors \<Rightarrow> colors)))
      | _ \<Rightarrow> [])"

section \<open>Example catalogues\<close>

text \<open>A collation to run examples with: comparison by code units.\<close>

fun codeUnitCompare :: "string \<Rightarrow> string \<Rightarrow> int" where
  "codeUnitCompare [] [] = 0"
| "codeUnitCompare [] (b # bs) = - 1"
| "codeUnitCompare (a # as) [] = 1"
| "codeUnitCompare (a # as) (b # bs) =
     (if (of_char a :: nat) < of_char b then - 1
      else if (of_char b :: nat) < of_char a then 1 else codeUnitCompare as bs)"

definition color :: "string \<Rightarrow> string \<Rightarrow> string option \<Rightarrow> ColorEntry" where
  "color i n c =
     \<lparr>col_id = i, col_name = n, col_yearIntroduced = None, col_yearLastUsed = None,
      col_companyId = c, col_pre1925Id = None\<rparr>"

definition lure :: "string \<Rightarrow> lure_number \<Rightarrow> LureEntry" where
  "lure n k =
     \<lparr>lure_name = n, lure_number = k, lure_yearIntroduced = None, lure_yearLastMfg = None,
      lure_colors = None, lure_rare_colors = None, lure_pre1925codes = None,
      lure_notes = None\<rparr>"

definition creekChub :: Manufacturer where
  "creekChub =
     \<lparr>m_id = ''creek-chub'', m_name = ''Creek Chub Bait Company'',
      m_colors = Some [color ''ccbc-19'' ''Green Frog'' (Some ''19''),
                       color ''ccbc-00'' ''Frog Spot'' (Some ''00''),
                       color ''ccbc-00b'' ''Frog'' (Some ''00'')],
      m_lures = Some [lure ''Pikie'' (NumV 700)]\<rparr>"

definition heddon :: Manufacturer where
  "heddon =
     \<lparr>m_id = ''heddon'', m_name = ''Heddon'',
      m_colors = Some [color ''hed-00'' ''Rainbow'' (Some ''00''),
                       color ''hed-100'' ''Shiner'' (Some ''100'')],
      m_lures = Some [lure ''River Runt'' (StrV ''700''), lure ''Vamp'' (StrV ''7500'')]\<rparr>"

definition frogIndexes :: Indexes where
  "frogIndexes =
     \<lparr>byId = Some [(''ccbc-19'', \<lparr>bi_manufacturerId = ''creek-chub'', bi_colorName = ''Green Frog'',
                                 bi_companyId = Some ''19''\<rparr>),
                    (''ccbc-00'', \<lparr>bi_manufacturerId = ''creek-chub'', bi_colorName = ''Frog Spot'',
                                 bi_companyId = Some ''00''\<rparr>),
                    (''ccbc-00b'', \<lparr>bi_manufacturerId = ''creek-chub'', bi_colorName = ''Frog'',
                                  bi_companyId = Some ''00''\<rparr>),
                    (''hed-00'', \<lparr>bi_manufacturerId = ''heddon'', bi_colorName = ''Rainbow'',
                                bi_companyId = Some ''00''\<rparr>),
                    (''hed-100'', \<lparr>bi_manufacturerId = ''heddon'', bi_colorName = ''Shiner'',
                                 bi_companyId = Some ''100''\<rparr>)],
      byCompanyId = Some [(''19'', [''ccbc-19'']),
                          (''00'', [''ccbc-00'', ''ccbc-00b'', ''hed-00'']),
                          (''100'', [''hed-100''])]\<rparr>"

text \<open>Two manufacturers, without and with the \<open>indexes\<close> block.\<close>

definition plainCatalogue :: file_content where
  "plainCatalogue =
     Parsed (Some \<lparr>manufacturers = Some [(''creek-chub'', creekChub), (''heddon'', heddon)],
                   indexes = None\<rparr>)"

definition indexedCatalogue :: file_content where
  "indexedCatalogue =
     Parsed (Some \<lparr>manufacturers = Some [(''creek-chub'', creekChub), (''heddon'', heddon)],
                   indexes = Some frogIndexes\<rparr>)"

text \<open>The three frog colours alone.\<close>

definition frogCatalogue :: file_content where
  "frogCatalogue =
     Parsed (Some \<lparr>manufacturers = Some [(''creek-chub'', creekChub\<lparr>m_lures := None\<rparr>)],
                   indexes = None\<rparr>)"

text \<open>Valid JSON without the \<open>manufacturers\<close> property: the text \<open>{}\<close>.\<close>

definition emptyObject :: file_content where
  "emptyObject = Parsed (Some \<lparr>manufacturers = None, indexes = None\<rparr>)"

text \<open>Two colours whose ids differ in case only.\<close>

definition caseCatalogue :: file_content where
  "caseCatalogue =
     Parsed (Some \<lparr>manufacturers =
                     Some [(''creek-chub'',
                            \<lparr>m_id = ''creek-chub'', m_name = ''Creek Chub Bait Company'',
                             m_colors = Some [color ''CCBC-00'' ''Pikie'' None,
                                              color ''ccbc-00'' ''Perch'' None],
                             m_lures = None\<rparr>)],
                   indexes = None\<rparr>)"


definition cached :: "string \<Rightarrow> string \<Rightarrow> string \<Rightarrow> string \<Rightarrow> string option \<Rightarrow> ColorData" where
  "cached mid mname i n c =
     \<lparr>cd_id = i, cd_name = n, cd_yearIntroduced = None, cd_yearLastUsed = None,
      cd_companyId = c, cd_pre1925Id = None, cd_manufacturerId = mid,
      cd_manufacturerName = mname\<rparr>"


section \<open>Strings\<close>

lemma pairs_disjoint: "set (map snd upperLowerPairs) \<inter> set (map fst upperLowerPairs) = {}"
  by code_simp

lemma lowerChar_idem: "lowerChar (lowerChar c) = lowerChar c"
proof (cases "map_of upperLowerPairs c")
  case None
  then show ?thesis by (simp add: lowerChar_def)
next
  case (Some d)
  then have "(c, d) \<in> set upperLowerPairs" by (rule map_of_SomeD)
  then have "d \<in> set (map snd upperLowerPairs)" by force
  with pairs_disjoint have "d \<notin> fst ` set upperLowerPairs" by auto
  then have "map_of upperLowerPairs d = None" by (simp add: map_of_eq_None_iff)
  with Some show ?thesis by (simp add: lowerChar_def)
qed

lemma toLowerCase_idem: "toLowerCase (toLowerCase s) = toLowerCase s"
  by (simp add: toLowerCase_def lowerChar_idem)



lemma ws_not_keys:
  "set [CHR 0x09, CHR 0x0A, CHR 0x0B, CHR 0x0C, CHR 0x0D, CHR 0x20, CHR 0xA0]
     \<inter> set (map fst upperLowerPairs) = {}"
  by code_simp

lemma ws_not_upper:
  assumes "isWhiteSpace c"
  shows "lowerChar c = c"
proof -
  from assms have "c \<in> set [CHR 0x09, CHR 0x0A, CHR 0x0B, CHR 0x0C, CHR 0x0D, CHR 0x20, CHR 0xA0]"
    by (simp only: isWhiteSpace_def)
  with ws_not_keys have "c \<notin> set (map fst upperLowerPairs)" by blast
  then have "map_of upperLowerPairs c = None" by (simp add: map_of_eq_None_iff)
  then show ?thesis by (simp add: lowerChar_def)
qed

lemma blank_query:
  assumes "\<forall>c\<in>set query. isWhiteSpace c"
  shows "trim (toLowerCase query) = []"
proof -
  have lower: "toLowerCase query = query"
    unfolding toLowerCase_def using assms by (simp add: map_idI ws_not_upper)
  have blank: "dropWhile isWhiteSpace query = []"
    using assms dropWhile_eq_Nil_conv by blast
  show ?thesis unfolding lower trim_def blank by simp
qed

section \<open>Empty and blank queries\<close>

text \<open>
  Claim C8. Whatever the caches hold, a query that is empty or made of white space only gives
  an empty result and no error, from the colour search and from the lure search.
\<close>

theorem search_blank_query_empty:
  assumes "\<forall>c\<in>set query. isWhiteSpace c"
  shows "ColorSearchProvider_search localeCompare colors query = Inr []
         \<and> LureSearchProvider_search localeCompare lures query = []"
  using blank_query [OF assms]
  by (simp add: ColorSearchProvider_search_def LureSearchProvider_search_def)

lemma plain_colorCache:
  "colorCache (new_ColorSearchProvider plainCatalogue) =
     [cached ''creek-chub'' ''Creek Chub Bait Company'' ''ccbc-19'' ''Green Frog'' (Some ''19''),
      cached ''creek-chub'' ''Creek Chub Bait Company'' ''ccbc-00'' ''Frog Spot'' (Some ''00''),
      cached ''creek-chub'' ''Creek Chub Bait Company'' ''ccbc-00b'' ''Frog'' (Some ''00''),
      cached ''heddon'' ''Heddon'' ''hed-00'' ''Rainbow'' (Some ''00''),
      cached ''heddon'' ''Heddon'' ''hed-100'' ''Shiner'' (Some ''100'')]"
  by (simp add: new_ColorSearchProvider_def ColorSearchProvider_loadDatabase_def plainCatalogue_def
      buildColorCache_def creekChub_def heddon_def colorData_def color_def cached_def)

theorem search_blank_query_empty_witness:
  "list_all isWhiteSpace ''   ''
   \<and> colorCache (new_ColorSearchProvider plainCatalogue) \<noteq> []
   \<and> lureCache (new_LureSearchProvider plainCatalogue) \<noteq> []
   \<and> ColorSearchProvider_search codeUnitCompare (new_ColorSearchProvider plainCatalogue) ''   '' = Inr []
   \<and> LureSearchProvider_search codeUnitCompare (new_LureSearchProvider plainCatalogue) ''   '' = []"
proof -
  have blank: "\<forall>c\<in>set ''   ''. isWhiteSpace c" by (simp add: isWhiteSpace_def)
  have "lureCache (new_LureSearchProvider plainCatalogue) \<noteq> []"
    by (simp add: new_LureSearchProvider_def LureSearchProvider_loadDatabase_def plainCatalogue_def
      buildLureCache_def allLures_def creekChub_def heddon_def)
  with blank plain_colorCache show ?thesis
    using search_blank_query_empty [OF blank, of codeUnitCompare
        "new_ColorSearchProvider plainCatalogue" "new_LureSearchProvider plainCatalogue"]
    by (simp add: list_all_iff)
qed

section \<open>Helper facts: catalogues, lists, sorting\<close>

lemma plain_database:
  "csp_database (new_ColorSearchProvider plainCatalogue) =
     Some \<lparr>manufacturers = Some [(''creek-chub'', creekChub), (''heddon'', heddon)], indexes = None\<rparr>"
  by (simp add: new_ColorSearchProvider_def ColorSearchProvider_loadDatabase_def plainCatalogue_def
      buildColorCache_def)


lemma indexed_database:
  "csp_database (new_ColorSearchProvider indexedCatalogue) =
     Some \<lparr>manufacturers = Some [(''creek-chub'', creekChub), (''heddon'', heddon)],
           indexes = Some frogIndexes\<rparr>"
  by (simp add: new_ColorSearchProvider_def ColorSearchProvider_loadDatabase_def indexedCatalogue_def
      buildColorCache_def)

lemma str_includes_self: "str_includes s s"
  by (cases s) (simp_all add: startsWith_def)

lemma insertBy_mset: "mset (insertBy cmp x xs) = add_mset x (mset xs)"
  by (induction xs) simp_all

lemma sortBy_mset: "mset (sortBy cmp xs) = mset xs"
  unfolding sortBy_def by (induction xs) (simp_all add: insertBy_mset)

lemma sortBy_set: "set (sortBy cmp xs) = set xs"
  using sortBy_mset [of cmp xs] by (metis set_mset_mset)

lemma find_first_of_distinct:
  "distinct (map f xs) \<Longrightarrow> x \<in> set xs \<Longrightarrow> find (\<lambda>y. f y = f x) xs = Some x"
  by (induction xs) (auto simp: image_iff)

lemma find_None_conv: "find P xs = None \<longleftrightarrow> (\<forall>x\<in>set xs. \<not> P x)"
  by (auto simp: find_None_iff)

lemma find_Some_holds: "find P xs = Some x \<Longrightarrow> x \<in> set xs \<and> P x"
  by (induction xs) (auto split: if_splits)

section \<open>\<open>getById\<close>\<close>

text \<open>
  Claim C10, amended. \<open>getById\<close> compares ids by exact string equality, with no change
  of case and no trimming. For a cached colour, \<open>getById\<close> on its id as stored returns a
  colour with that id (the colour itself when the cached ids are distinct). \<open>getById\<close>
  returns absent exactly when no cached colour has the argument as its id, so a form of an
  id in another case or padded with white space is absent unless it is itself a stored id.
  \<open>search\<close> on such a form still returns the record when no other cached id is equal to
  it up to case and the \<open>byCompanyId\<close> index has nothing under the query.
\<close>

theorem getById_exact_string_equality:
  "(c \<in> set (colorCache this) \<longrightarrow>
      (\<exists>c'. getById this (cd_id c) = Some c' \<and> cd_id c' = cd_id c
            \<and> (distinct (map cd_id (colorCache this)) \<longrightarrow> c' = c)))
   \<and> (getById this q = None \<longleftrightarrow> (\<forall>d\<in>set (colorCache this). cd_id d \<noteq> q))
   \<and> (c \<in> set (colorCache this) \<and> cd_id c \<noteq> []
        \<and> trim (toLowerCase q) = toLowerCase (cd_id c)
        \<and> (\<forall>d\<in>set (colorCache this). toLowerCase (cd_id d) = toLowerCase (cd_id c) \<longrightarrow> d = c)
        \<and> byCompanyIdEntry this q = Undefined
      \<longrightarrow> (\<exists>rs. ColorSearchProvider_search localeCompare this q = Inr rs \<and> c \<in> set rs))"
proof (intro conjI impI)
  assume c: "c \<in> set (colorCache this)"
  then have "find (\<lambda>d. cd_id d = cd_id c) (colorCache this) \<noteq> None"
    by (auto simp: find_None_conv)
  then obtain c' where f: "find (\<lambda>d. cd_id d = cd_id c) (colorCache this) = Some c'"
    by blast
  have "cd_id c' = cd_id c" using find_Some_holds [OF f] by simp
  moreover have "distinct (map cd_id (colorCache this)) \<longrightarrow> c' = c"
    using find_first_of_distinct [of cd_id "colorCache this" c] c f by auto
  ultimately show "\<exists>c'. getById this (cd_id c) = Some c' \<and> cd_id c' = cd_id c
            \<and> (distinct (map cd_id (colorCache this)) \<longrightarrow> c' = c)"
    using f by (simp add: getById_def)
next
  show "getById this q = None \<longleftrightarrow> (\<forall>d\<in>set (colorCache this). cd_id d \<noteq> q)"
    by (simp add: getById_def find_None_conv)
next
  assume h: "c \<in> set (colorCache this) \<and> cd_id c \<noteq> []
        \<and> trim (toLowerCase q) = toLowerCase (cd_id c)
        \<and> (\<forall>d\<in>set (colorCache this). toLowerCase (cd_id d) = toLowerCase (cd_id c) \<longrightarrow> d = c)
        \<and> byCompanyIdEntry this q = Undefined"
  let ?lq = "toLowerCase (cd_id c)"
  from h have ne: "?lq \<noteq> []" by (simp add: toLowerCase_def)
  have fuzzy: "c \<in> set (colorFuzzy localeCompare this ?lq)"
    using h by (simp add: colorFuzzy_def sortBy_set colorMatches_def str_includes_self)
  show "\<exists>rs. ColorSearchProvider_search localeCompare this q = Inr rs \<and> c \<in> set rs"
  proof (cases "if byIdHit this ?lq
                 then find (\<lambda>d. toLowerCase (cd_id d) = ?lq) (colorCache this) else None")
    case None
    with h ne fuzzy show ?thesis by (simp add: ColorSearchProvider_search_def)
  next
    case (Some c')
    then have "find (\<lambda>d. toLowerCase (cd_id d) = ?lq) (colorCache this) = Some c'"
      by (simp split: if_splits)
    from find_Some_holds [OF this] h have "c' = c" by blast
    with Some h ne show ?thesis by (simp add: ColorSearchProvider_search_def)
  qed
qed


lemma case_colorCache:
  "colorCache (new_ColorSearchProvider caseCatalogue) =
     [cached ''creek-chub'' ''Creek Chub Bait Company'' ''CCBC-00'' ''Pikie'' None,
      cached ''creek-chub'' ''Creek Chub Bait Company'' ''ccbc-00'' ''Perch'' None]"
  by (simp add: new_ColorSearchProvider_def ColorSearchProvider_loadDatabase_def caseCatalogue_def
      buildColorCache_def colorData_def color_def cached_def)

text \<open>
  The claim as stated fails where two stored ids differ in case only: \<open>ccbc-00\<close> is
  \<open>CCBC-00\<close> in another case, and \<open>getById\<close> finds a colour under it.
\<close>

theorem getById_case_variant_found:
  "cached ''creek-chub'' ''Creek Chub Bait Company'' ''CCBC-00'' ''Pikie'' None
     \<in> set (colorCache (new_ColorSearchProvider caseCatalogue))
   \<and> ''ccbc-00'' \<noteq> ''CCBC-00''
   \<and> toLowerCase ''ccbc-00'' = toLowerCase ''CCBC-00''
   \<and> getById (new_ColorSearchProvider caseCatalogue) ''ccbc-00''
       = Some (cached ''creek-chub'' ''Creek Chub Bait Company'' ''ccbc-00'' ''Perch'' None)"
  by (simp add: case_colorCache getById_def cached_def toLowerCase_def lowerChar_def
      upperLowerPairs_def)

theorem getById_exact_string_equality_witness:
  "getById (new_ColorSearchProvider plainCatalogue) ''ccbc-00''
     = Some (cached ''creek-chub'' ''Creek Chub Bait Company'' ''ccbc-00'' ''Frog Spot'' (Some ''00''))
   \<and> getById (new_ColorSearchProvider plainCatalogue) '' CCBC-00 '' = None
   \<and> (\<exists>rs. ColorSearchProvider_search codeUnitCompare (new_ColorSearchProvider plainCatalogue)
              '' CCBC-00 '' = Inr rs
          \<and> cached ''creek-chub'' ''Creek Chub Bait Company'' ''ccbc-00'' ''Frog Spot'' (Some ''00'')
              \<in> set rs)"
proof -
  let ?p = "new_ColorSearchProvider plainCatalogue"
  let ?c = "cached ''creek-chub'' ''Creek Chub Bait Company'' ''ccbc-00'' ''Frog Spot'' (Some ''00'')"
  have mem: "?c \<in> set (colorCache ?p)" by (simp add: plain_colorCache)
  have dist: "distinct (map cd_id (colorCache ?p))" by (simp add: plain_colorCache cached_def)
  have none: "\<forall>d\<in>set (colorCache ?p). cd_id d \<noteq> '' CCBC-00 ''"
    by (simp add: plain_colorCache cached_def)
  have form: "trim (toLowerCase '' CCBC-00 '') = toLowerCase (cd_id ?c)"
    by (simp add: cached_def trim_def toLowerCase_def lowerChar_def upperLowerPairs_def
        isWhiteSpace_def)
  have uniq: "\<forall>d\<in>set (colorCache ?p). toLowerCase (cd_id d) = toLowerCase (cd_id ?c) \<longrightarrow> d = ?c"
    by (simp add: plain_colorCache cached_def toLowerCase_def lowerChar_def upperLowerPairs_def)
  have noEntry: "byCompanyIdEntry ?p '' CCBC-00 '' = Undefined"
    by (simp add: byCompanyIdEntry_def plain_database)
  have ne: "cd_id ?c \<noteq> []" by (simp add: cached_def)
  have id: "cd_id ?c = ''ccbc-00''" by (simp add: cached_def)
  from getById_exact_string_equality [of ?c ?p "'' CCBC-00 ''" codeUnitCompare]
    mem dist none form uniq noEntry ne
  show ?thesis unfolding id by blast
qed





section \<open>The exact-id path of the colour search\<close>




section \<open>The company-code path of the colour search\<close>





section \<open>Loading and reloading\<close>

text \<open>
  A file that cannot be read or parsed leaves an empty cache, and every search on it is empty.
\<close>

lemma failed_load_empty:
  assumes "file = ReadError \<or> file = SyntaxError"
  shows "colorCache (ColorSearchProvider_loadDatabase file this) = []
         \<and> ColorSearchProvider_search localeCompare (ColorSearchProvider_loadDatabase file this) query = Inr []"
proof -
  from assms have load: "ColorSearchProvider_loadDatabase file this
      = this\<lparr>csp_database := None, colorCache := []\<rparr>"
    by (auto simp: ColorSearchProvider_loadDatabase_def)
  show ?thesis unfolding load
    by (simp add: ColorSearchProvider_search_def byIdHit_def byCompanyIdEntry_def colorFuzzy_def
        sortBy_def Let_def)
qed


text \<open>
  Claim C4. A document that is missing, unparseable or without the expected top-level shape
  should leave an empty, queryable index, also on \<open>reload\<close>. The code does so when reading or
  parsing throws. When the text parses but has no \<open>manufacturers\<close>, \<open>buildColorCache\<close>
  returns before it resets the cache: after a reload onto the document \<open>{}\<close> the three
  colours loaded before are still cached, and \<open>search\<close> returns them.
\<close>

theorem reload_without_manufacturers_keeps_cache:
  "colorCache (ColorSearchProvider_reload emptyObject (new_ColorSearchProvider frogCatalogue))
     = [cached ''creek-chub'' ''Creek Chub Bait Company'' ''ccbc-19'' ''Green Frog'' (Some ''19''),
        cached ''creek-chub'' ''Creek Chub Bait Company'' ''ccbc-00'' ''Frog Spot'' (Some ''00''),
        cached ''creek-chub'' ''Creek Chub Bait Company'' ''ccbc-00b'' ''Frog'' (Some ''00'')]
   \<and> ColorSearchProvider_search codeUnitCompare
        (ColorSearchProvider_reload emptyObject (new_ColorSearchProvider frogCatalogue)) ''frog''
     = Inr [cached ''creek-chub'' ''Creek Chub Bait Company'' ''ccbc-00b'' ''Frog'' (Some ''00''),
            cached ''creek-chub'' ''Creek Chub Bait Company'' ''ccbc-00'' ''Frog Spot'' (Some ''00''),
            cached ''creek-chub'' ''Creek Chub Bait Company'' ''ccbc-19'' ''Green Frog'' (Some ''19'')]"
  by code_simp

text \<open>
  A document without \<open>manufacturers\<close> whose \<open>indexes.byCompanyId\<close> is present: the query
  \<open>constructor\<close> reads the inherited property, which has no \<open>map\<close>, and the search throws.
\<close>

lemma search_inherited_key_raises:
  "ColorSearchProvider_search codeUnitCompare
     (new_ColorSearchProvider
        (Parsed (Some \<lparr>manufacturers = None,
                       indexes = Some \<lparr>byId = None, byCompanyId = Some []\<rparr>\<rparr>)))
     ''constructor'' = Inl TypeError"
  by code_simp

section \<open>\<open>getByNumber\<close>\<close>

declare natToString.simps [simp del]










section \<open>The colour lookup of the lure details\<close>

lemma foldl_update_lookup:
  "foldl (\<lambda>m c. m(k c \<mapsto> v c)) m0 cs x =
     (case find (\<lambda>c. k c = x) (rev cs) of Some c \<Rightarrow> Some (v c) | None \<Rightarrow> m0 x)"
  by (induction cs rule: rev_induct) simp_all

lemma buildColorLookup_creekChub:
  "buildColorLookup file lookup =
     foldl (\<lambda>m color. m(col_id color \<mapsto> colorInfo color)) lookup (creekChubColors file)"
  by (simp add: buildColorLookup_def creekChubColors_def
      split: file_content.splits option.splits)

lemma creekChub_in_cache:
  assumes "c \<in> set (creekChubColors file)"
  shows "\<exists>d\<in>set (colorCache (new_ColorSearchProvider file)). cd_id d = col_id c"
proof -
  from assms have "\<exists>data ms m cs. file = Parsed (Some data) \<and> manufacturers data = Some ms
      \<and> map_of ms ''creek-chub'' = Some m \<and> m_colors m = Some cs \<and> c \<in> set cs"
    unfolding creekChubColors_def
    by (cases "file"; simp split: option.splits) (metis option.collapse)
  then obtain data ms m cs where
    parsed: "file = Parsed (Some data)" and ms: "manufacturers data = Some ms"
    and m: "map_of ms ''creek-chub'' = Some m" and cs: "m_colors m = Some cs" and c: "c \<in> set cs"
    by blast
  let ?F = "\<lambda>(manufacturerId, manufacturer).
              case m_colors manufacturer of
                None \<Rightarrow> []
              | Some colors \<Rightarrow> map (colorData manufacturerId manufacturer) colors"
  have cache: "colorCache (new_ColorSearchProvider file) = concat (map ?F ms)"
    by (simp add: parsed ms new_ColorSearchProvider_def ColorSearchProvider_loadDatabase_def
        buildColorCache_def)
  from m have "(''creek-chub'', m) \<in> set ms" by (rule map_of_SomeD)
  then have "?F (''creek-chub'', m) \<in> set (map ?F ms)" by (simp only: set_map) (rule imageI)
  moreover from cs c have "colorData ''creek-chub'' m c \<in> set (?F (''creek-chub'', m))" by simp
  ultimately have "colorData ''creek-chub'' m c \<in> \<Union> (set ` set (map ?F ms))"
    by (rule UN_I)
  then have "colorData ''creek-chub'' m c \<in> set (colorCache (new_ColorSearchProvider file))"
    unfolding cache set_concat .
  moreover have "cd_id (colorData ''creek-chub'' m c) = col_id c" by (simp add: colorData_def)
  ultimately show ?thesis by blast
qed

text \<open>
  Claim C6, amended. The name shown for a colour id is the display name of the colour with
  that id among the colours of the manufacturer \<open>creek-chub\<close> in the document (the last one,
  if the id occurs twice), and the raw id string when \<open>creek-chub\<close> has no colour with that
  id, also when another manufacturer's colour with that id is in the colour index. The lookup
  never fails. Every colour it resolves is in the colour index.
\<close>

theorem resolver_name_from_creek_chub:
  "ci_name (getColorInfo (buildColorLookup file Map.empty) colorId)
     = (case find (\<lambda>c. col_id c = colorId) (rev (creekChubColors file)) of
          Some c \<Rightarrow> col_name c
        | None \<Rightarrow> colorId)
   \<and> ((\<exists>c\<in>set (creekChubColors file). col_id c = colorId)
        \<longrightarrow> getById (new_ColorSearchProvider file) colorId \<noteq> None)"
proof (intro conjI impI)
  show "ci_name (getColorInfo (buildColorLookup file Map.empty) colorId)
     = (case find (\<lambda>c. col_id c = colorId) (rev (creekChubColors file)) of
          Some c \<Rightarrow> col_name c
        | None \<Rightarrow> colorId)"
    unfolding buildColorLookup_creekChub getColorInfo_def foldl_update_lookup
    by (simp add: colorInfo_def split: option.splits)
next
  assume "\<exists>c\<in>set (creekChubColors file). col_id c = colorId"
  then obtain c where "c \<in> set (creekChubColors file)" and id: "col_id c = colorId" by blast
  from creekChub_in_cache [OF this(1)] id
  have "\<exists>d\<in>set (colorCache (new_ColorSearchProvider file)). cd_id d = colorId" by simp
  then show "getById (new_ColorSearchProvider file) colorId \<noteq> None"
    unfolding getById_def find_None_conv by blast
qed

lemma plain_creekChubColors:
  "creekChubColors plainCatalogue =
     [color ''ccbc-19'' ''Green Frog'' (Some ''19''),
      color ''ccbc-00'' ''Frog Spot'' (Some ''00''),
      color ''ccbc-00b'' ''Frog'' (Some ''00'')]"
  by (simp add: creekChubColors_def plainCatalogue_def creekChub_def)

text \<open>
  The claim as stated fails for a colour of another manufacturer: \<open>hed-00\<close> is in the colour
  index under the name \<open>Rainbow\<close>, and the lure details show the raw id.
\<close>

theorem resolver_name_other_manufacturer:
  "getById (new_ColorSearchProvider plainCatalogue) ''hed-00''
     = Some (cached ''heddon'' ''Heddon'' ''hed-00'' ''Rainbow'' (Some ''00''))
   \<and> ci_name (getColorInfo (buildColorLookup plainCatalogue Map.empty) ''hed-00'') = ''hed-00''"
  by (simp add: getById_def plain_colorCache cached_def buildColorLookup_creekChub
      plain_creekChubColors getColorInfo_def color_def colorInfo_def)

theorem resolver_name_from_creek_chub_witness:
  "ci_name (getColorInfo (buildColorLookup plainCatalogue Map.empty) ''ccbc-19'') = ''Green Frog''
   \<and> getById (new_ColorSearchProvider plainCatalogue) ''ccbc-19'' \<noteq> None
   \<and> ci_name (getColorInfo (buildColorLookup plainCatalogue Map.empty) ''ccbc-99'') = ''ccbc-99''"
proof -
  have ex: "\<exists>c\<in>set (creekChubColors plainCatalogue). col_id c = ''ccbc-19''"
    by (simp add: plain_creekChubColors color_def)
  from resolver_name_from_creek_chub [of plainCatalogue "''ccbc-19''"] ex
    resolver_name_from_creek_chub [of plainCatalogue "''ccbc-99''"]
  show ?thesis by (simp add: plain_creekChubColors color_def)
qed

section \<open>The derived lure code\<close>




















section \<open>Ranking of the substring scan\<close>



















end
